theory Spec2Isabelle
  imports Main "HOL-Library.Word"
begin

unbundle bit_operations_syntax

section \<open>The platform audio engine\<close>

text \<open>
  The wrapper classes of \<^verbatim>\<open>ofxAudioUnit.h\<close> call into the platform's audio
  toolbox. The toolbox is not code of this repository: it is modelled as an explicit
  engine state that records what the wrappers ask of it.
\<close>

type_synonym UInt32 = "32 word"
type_synonym UInt64 = "64 word"
type_synonym OSType = "32 word"
type_synonym OSStatus = "32 word"

text \<open>An \<^verbatim>\<open>AudioUnit\<close> is a handle of a component instance.\<close>

type_synonym AudioUnit = nat

record AudioComponentDescription =
  componentType :: OSType
  componentSubType :: OSType
  componentManufacturer :: OSType
  componentFlags :: UInt32
  componentFlagsMask :: UInt32

text \<open>One call of \<^verbatim>\<open>MusicDeviceMIDIEvent(unit, status, data1, data2, offset)\<close>.\<close>

record MIDIEvent =
  ev_unit :: AudioUnit
  ev_status :: UInt32
  ev_data1 :: UInt32
  ev_data2 :: UInt32
  ev_offset :: UInt32

text \<open>
  The engine: \<open>available\<close> says which descriptions resolve to a component,
  \<open>load_status\<close> is the status the sampler unit answers to a request to load a list of
  files (0 is \<^verbatim>\<open>noErr\<close>); \<open>instances\<close> are the component instances made so far,
  \<open>loaded\<close> the files each unit holds, \<open>midi\<close> the MIDI events scheduled so far and
  \<open>diagnostics\<close> the messages printed. \<open>input_buses\<close> is the number of input buses
  of a unit, \<open>callbacks\<close> maps a consumer unit and one of its input buses to the
  producer unit and output bus that render for it, \<open>running\<close> says which output units
  run and \<open>disposed\<close> lists the units released.
\<close>

record AudioEngine =
  available :: "AudioComponentDescription \<Rightarrow> bool"
  load_status :: "string list \<Rightarrow> OSStatus"
  instances :: "(AudioUnit \<times> AudioComponentDescription) list"
  loaded :: "AudioUnit \<Rightarrow> string list"
  midi :: "MIDIEvent list"
  diagnostics :: "string list"
  input_buses :: "AudioUnit \<Rightarrow> nat"
  callbacks :: "AudioUnit \<times> nat \<Rightarrow> (AudioUnit \<times> nat) option"
  running :: "AudioUnit \<Rightarrow> bool"
  disposed :: "AudioUnit list"

definition noErr :: OSStatus where
  "noErr = 0"

definition MusicDeviceMIDIEvent ::
  "AudioUnit \<Rightarrow> UInt32 \<Rightarrow> UInt32 \<Rightarrow> UInt32 \<Rightarrow> UInt32 \<Rightarrow> AudioEngine \<Rightarrow> AudioEngine" where
  "MusicDeviceMIDIEvent u status data1 data2 offset eng =
     eng\<lparr>midi := midi eng @
       [\<lparr>ev_unit = u, ev_status = status, ev_data1 = data1, ev_data2 = data2,
         ev_offset = offset\<rparr>]\<rparr>"

text \<open>
  \<^verbatim>\<open>AudioUnitSetProperty(unit, kAUSamplerProperty_LoadAudioFiles, ...)\<close>: the unit
  takes the files when the engine answers \<^verbatim>\<open>noErr\<close> and keeps what it had otherwise.
\<close>

definition AudioUnitSetProperty_LoadAudioFiles ::
  "AudioUnit \<Rightarrow> string list \<Rightarrow> AudioEngine \<Rightarrow> OSStatus \<times> AudioEngine" where
  "AudioUnitSetProperty_LoadAudioFiles u paths eng =
     (if load_status eng paths = noErr
      then (noErr, eng\<lparr>loaded := (loaded eng)(u := paths)\<rparr>)
      else (load_status eng paths, eng))"

text \<open>
  The macro \<^verbatim>\<open>OFXAU_PRINT(status, stage)\<close> (its header is not among the sources)
  is a statement in the middle of a function body: it prints the stage when the status
  is not \<^verbatim>\<open>noErr\<close> and execution goes on.
\<close>

definition OFXAU_PRINT :: "OSStatus \<Rightarrow> string \<Rightarrow> AudioEngine \<Rightarrow> AudioEngine" where
  "OFXAU_PRINT s stage eng =
     (if s = noErr then eng else eng\<lparr>diagnostics := diagnostics eng @ [stage]\<rparr>)"

section \<open>Nodes\<close>

text \<open>
  Class \<^verbatim>\<open>ofxAudioUnit\<close> holds \<^verbatim>\<open>_unit\<close>, a reference-counted pointer to the
  unit (\<open>None\<close> is the null pointer; two nodes holding \<open>Some u\<close> share the unit \<open>u\<close>),
  and \<^verbatim>\<open>_desc\<close>. Class \<^verbatim>\<open>ofxAudioUnitSampler\<close> derives from it and adds the
  public field \<^verbatim>\<open>midiChannelInUse\<close>.
\<close>

record ofxAudioUnit =
  m_unit :: "AudioUnit option"
  m_desc :: AudioComponentDescription

record ofxAudioUnitSampler = ofxAudioUnit +
  midiChannelInUse :: UInt32

datatype error = NullUnit

text \<open>
  Modelled from the spec: \<^verbatim>\<open>ofxAudioUnit::initUnit\<close>, declared at line 31 of the
  header and defined in a file that is not among the sources. The spec has
  \<^verbatim>\<open>instantiate(descriptor) -> unit-handle | failure\<close>: the node gets a unit
  instance of its own, made for its descriptor, and is left as it was when the engine
  cannot resolve the descriptor.
\<close>

definition initUnit ::
  "'a ofxAudioUnit_scheme \<Rightarrow> AudioEngine \<Rightarrow> 'a ofxAudioUnit_scheme \<times> AudioEngine" where
  "initUnit n eng =
     (if available eng (m_desc n)
      then (n\<lparr>m_unit := Some (length (instances eng))\<rparr>,
            eng\<lparr>instances := instances eng @ [(length (instances eng), m_desc n)]\<rparr>)
      else (n, eng))"

subsection \<open>The sampler's constructors and assignment\<close>

text \<open>
  The four-character codes of the platform headers:
  \<^verbatim>\<open>'aumu'\<close>, \<^verbatim>\<open>'samp'\<close> and \<^verbatim>\<open>'appl'\<close>.
\<close>

definition kAudioUnitType_MusicDevice :: OSType where
  "kAudioUnitType_MusicDevice = 0x61756D75"

definition kAudioUnitSubType_Sampler :: OSType where
  "kAudioUnitSubType_Sampler = 0x73616D70"

definition kAudioUnitManufacturer_Apple :: OSType where
  "kAudioUnitManufacturer_Apple = 0x6170706C"

definition samplerDesc :: AudioComponentDescription where
  "samplerDesc =
     \<lparr>componentType = kAudioUnitType_MusicDevice,
      componentSubType = kAudioUnitSubType_Sampler,
      componentManufacturer = kAudioUnitManufacturer_Apple,
      componentFlags = 0, componentFlagsMask = 0\<rparr>"

text \<open>
  A constructor runs on the storage of the new object. Its argument \<open>raw\<close> is what that
  storage holds before: the base constructor \<^verbatim>\<open>ofxAudioUnit(){}\<close> default-constructs
  \<^verbatim>\<open>_unit\<close> to the null pointer, and a field the constructor does not write keeps
  the value of \<open>raw\<close>, which the program does not choose.
\<close>

definition ofxAudioUnit_base :: "'a ofxAudioUnit_scheme \<Rightarrow> 'a ofxAudioUnit_scheme" where
  "ofxAudioUnit_base raw = raw\<lparr>m_unit := None\<rparr>"

definition Sampler_default ::
  "ofxAudioUnitSampler \<Rightarrow> AudioEngine \<Rightarrow> ofxAudioUnitSampler \<times> AudioEngine" where
  "Sampler_default raw eng = initUnit ((ofxAudioUnit_base raw)\<lparr>m_desc := samplerDesc\<rparr>) eng"

definition Sampler_of_type ::
  "OSType \<Rightarrow> OSType \<Rightarrow> OSType \<Rightarrow> ofxAudioUnitSampler \<Rightarrow> AudioEngine
     \<Rightarrow> ofxAudioUnitSampler \<times> AudioEngine" where
  "Sampler_of_type type subType manufacturer raw eng =
     initUnit ((ofxAudioUnit_base raw)\<lparr>m_desc :=
       (m_desc raw)\<lparr>componentType := type, componentSubType := subType,
         componentManufacturer := manufacturer, componentFlags := 0,
         componentFlagsMask := 0\<rparr>\<rparr>) eng"

definition Sampler_copy ::
  "ofxAudioUnitSampler \<Rightarrow> ofxAudioUnitSampler \<Rightarrow> AudioEngine
     \<Rightarrow> ofxAudioUnitSampler \<times> AudioEngine" where
  "Sampler_copy orig raw eng = initUnit ((ofxAudioUnit_base raw)\<lparr>m_desc := m_desc orig\<rparr>) eng"

text \<open>
  \<^verbatim>\<open>operator=\<close> compares the addresses of its two objects, so the objects live in
  a store. A reference always names an object; \<open>None\<close> is returned for an address that
  holds none.
\<close>

type_synonym addr = nat
type_synonym store = "addr \<Rightarrow> ofxAudioUnitSampler option"

definition operator_assign :: "addr \<Rightarrow> addr \<Rightarrow> store \<Rightarrow> store option" where
  "operator_assign this orig h =
     (case (h this, h orig) of
        (Some t, Some s) \<Rightarrow>
          if this = orig then Some h
          else Some (h(this \<mapsto> t\<lparr>m_unit := m_unit s, m_desc := m_desc s\<rparr>))
      | _ \<Rightarrow> None)"

subsection \<open>Loading samples\<close>

text \<open>
  The two functions are declared \<^verbatim>\<open>bool\<close>. \<^verbatim>\<open>setSample\<close> ends in
  \<^verbatim>\<open>return true\<close>; the body of \<^verbatim>\<open>setSamples\<close> has no return statement, so
  the value it returns is \<open>None\<close>. Both dereference \<^verbatim>\<open>_unit\<close>.
\<close>

definition setSample ::
  "string \<Rightarrow> 'a ofxAudioUnit_scheme \<Rightarrow> AudioEngine \<Rightarrow> error + (bool option \<times> AudioEngine)" where
  "setSample samplePath n eng =
     (case m_unit n of
        None \<Rightarrow> Inl NullUnit
      | Some u \<Rightarrow>
          (let (s, eng1) = AudioUnitSetProperty_LoadAudioFiles u [samplePath] eng
           in Inr (Some True,
                   OFXAU_PRINT s ''setting ofxAudioUnitSampler's source sample'' eng1)))"

definition setSamples ::
  "string list \<Rightarrow> 'a ofxAudioUnit_scheme \<Rightarrow> AudioEngine
     \<Rightarrow> error + (bool option \<times> AudioEngine)" where
  "setSamples samplePaths n eng =
     (case m_unit n of
        None \<Rightarrow> Inl NullUnit
      | Some u \<Rightarrow>
          (let (s, eng1) = AudioUnitSetProperty_LoadAudioFiles u samplePaths eng
           in Inr (None,
                   OFXAU_PRINT s ''setting ofxAudioUnitSampler's source samples'' eng1)))"

subsection \<open>MIDI\<close>

definition kMidiMessage_ControlChange :: UInt32 where
  "kMidiMessage_ControlChange = 0xB"

definition kMidiMessage_ProgramChange :: UInt32 where
  "kMidiMessage_ProgramChange = 0xC"

definition kMidiMessage_BankMSBControl :: UInt32 where
  "kMidiMessage_BankMSBControl = 0"

definition kMidiMessage_BankLSBControl :: UInt32 where
  "kMidiMessage_BankLSBControl = 32"

definition kMidiMessage_NoteOn :: UInt32 where
  "kMidiMessage_NoteOn = 0x9"

definition kMidiMessage_NoteOff :: UInt32 where
  "kMidiMessage_NoteOff = 0x8"

text \<open>
  In \<^verbatim>\<open>kMidiMessage_NoteOn << 4 | midiChannelInUse\<close> the shift binds tighter than
  the bitwise or, and the result is a \<^verbatim>\<open>UInt32\<close>.
\<close>

definition setChannel :: "UInt32 \<Rightarrow> ofxAudioUnitSampler \<Rightarrow> ofxAudioUnitSampler" where
  "setChannel chan s = s\<lparr>midiChannelInUse := chan\<rparr>"

definition midiEvent ::
  "UInt32 \<Rightarrow> UInt32 \<Rightarrow> UInt32 \<Rightarrow> ofxAudioUnitSampler \<Rightarrow> AudioEngine \<Rightarrow> error + AudioEngine" where
  "midiEvent status data1 data2 s eng =
     (case m_unit s of
        None \<Rightarrow> Inl NullUnit
      | Some u \<Rightarrow> Inr (MusicDeviceMIDIEvent u status data1 data2 0 eng))"

definition setBank ::
  "UInt32 \<Rightarrow> UInt32 \<Rightarrow> ofxAudioUnitSampler \<Rightarrow> AudioEngine \<Rightarrow> error + AudioEngine" where
  "setBank msb lsb s eng =
     (case m_unit s of
        None \<Rightarrow> Inl NullUnit
      | Some u \<Rightarrow>
          Inr (MusicDeviceMIDIEvent u
                 (push_bit 4 kMidiMessage_ControlChange OR midiChannelInUse s)
                 kMidiMessage_BankLSBControl lsb 0
                 (MusicDeviceMIDIEvent u
                    (push_bit 4 kMidiMessage_ControlChange OR midiChannelInUse s)
                    kMidiMessage_BankMSBControl msb 0 eng)))"

definition setProgram ::
  "UInt32 \<Rightarrow> ofxAudioUnitSampler \<Rightarrow> AudioEngine \<Rightarrow> error + AudioEngine" where
  "setProgram prog s eng =
     (case m_unit s of
        None \<Rightarrow> Inl NullUnit
      | Some u \<Rightarrow>
          Inr (MusicDeviceMIDIEvent u
                 (push_bit 4 kMidiMessage_ProgramChange OR midiChannelInUse s)
                 prog 0 0 eng))"

definition midiNoteOn ::
  "UInt32 \<Rightarrow> UInt32 \<Rightarrow> ofxAudioUnitSampler \<Rightarrow> AudioEngine \<Rightarrow> error + AudioEngine" where
  "midiNoteOn note vel s eng =
     (let noteOnCommand = push_bit 4 kMidiMessage_NoteOn OR midiChannelInUse s
      in case m_unit s of
           None \<Rightarrow> Inl NullUnit
         | Some u \<Rightarrow> Inr (MusicDeviceMIDIEvent u noteOnCommand note vel 0 eng))"

definition midiNoteOff ::
  "UInt32 \<Rightarrow> UInt32 \<Rightarrow> ofxAudioUnitSampler \<Rightarrow> AudioEngine \<Rightarrow> error + AudioEngine" where
  "midiNoteOff note vel s eng =
     (let noteOffCommand = push_bit 4 kMidiMessage_NoteOff OR midiChannelInUse s
      in case m_unit s of
           None \<Rightarrow> Inl NullUnit
         | Some u \<Rightarrow> Inr (MusicDeviceMIDIEvent u noteOffCommand note vel 0 eng))"

subsection \<open>Sequences of calls on one sampler\<close>

text \<open>
  A client calls the sampler's MIDI members one after the other on the same object;
  a call that dereferences a null \<^verbatim>\<open>_unit\<close> ends the sequence.
\<close>

datatype call =
  MidiNoteOn UInt32 UInt32
| MidiNoteOff UInt32 UInt32
| SetBank UInt32 UInt32
| SetProgram UInt32
| SetChannel UInt32
| MidiEvent UInt32 UInt32 UInt32

fun perform ::
  "call \<Rightarrow> ofxAudioUnitSampler \<Rightarrow> AudioEngine \<Rightarrow> error + (ofxAudioUnitSampler \<times> AudioEngine)" where
  "perform (MidiNoteOn note vel) s eng =
     (case midiNoteOn note vel s eng of Inl e \<Rightarrow> Inl e | Inr eng' \<Rightarrow> Inr (s, eng'))"
| "perform (MidiNoteOff note vel) s eng =
     (case midiNoteOff note vel s eng of Inl e \<Rightarrow> Inl e | Inr eng' \<Rightarrow> Inr (s, eng'))"
| "perform (SetBank msb lsb) s eng =
     (case setBank msb lsb s eng of Inl e \<Rightarrow> Inl e | Inr eng' \<Rightarrow> Inr (s, eng'))"
| "perform (SetProgram prog) s eng =
     (case setProgram prog s eng of Inl e \<Rightarrow> Inl e | Inr eng' \<Rightarrow> Inr (s, eng'))"
| "perform (SetChannel chan) s eng = Inr (setChannel chan s, eng)"
| "perform (MidiEvent status data1 data2) s eng =
     (case midiEvent status data1 data2 s eng of Inl e \<Rightarrow> Inl e | Inr eng' \<Rightarrow> Inr (s, eng'))"

fun run ::
  "call list \<Rightarrow> ofxAudioUnitSampler \<Rightarrow> AudioEngine
     \<Rightarrow> error + (ofxAudioUnitSampler \<times> AudioEngine)" where
  "run [] s eng = Inr (s, eng)"
| "run (c # cs) s eng =
     (case perform c s eng of Inl e \<Rightarrow> Inl e | Inr (s', eng') \<Rightarrow> run cs s' eng')"

text \<open>The calls that build their status word from \<^verbatim>\<open>midiChannelInUse\<close>.\<close>

fun packs_channel :: "call \<Rightarrow> bool" where
  "packs_channel (MidiNoteOn note vel) = True"
| "packs_channel (MidiNoteOff note vel) = True"
| "packs_channel (SetBank msb lsb) = True"
| "packs_channel (SetProgram prog) = True"
| "packs_channel (SetChannel chan) = False"
| "packs_channel (MidiEvent status data1 data2) = False"

section \<open>Connections\<close>

text \<open>
  Modelled from the spec: \<^verbatim>\<open>ofxAudioUnit::connectTo\<close>, declared
  \<^verbatim>\<open>virtual void connectTo(ofxAudioUnit &otherUnit, int destinationBus = 0, int sourceBus = 0)\<close>
  at line 46 of the header and defined in a file that is not among the sources. The
  spec has: it registers a render-pull callback on the other node's destination bus
  that invokes this node's render operation; the destination bus must be below the other
  node's current input-bus count, else the operation is a no-op; forming a connection
  only registers a callback on the consumer. The declaration gives the result type: the
  function is \<^verbatim>\<open>void\<close>, so the call hands back the unit value and the new engine.
\<close>

definition connectTo ::
  "'a ofxAudioUnit_scheme \<Rightarrow> 'b ofxAudioUnit_scheme \<Rightarrow> int \<Rightarrow> int \<Rightarrow> AudioEngine
     \<Rightarrow> unit \<times> AudioEngine" where
  "connectTo this otherUnit destinationBus sourceBus eng =
     (case (m_unit this, m_unit otherUnit) of
        (Some src, Some dst) \<Rightarrow>
          if 0 \<le> destinationBus \<and> destinationBus < int (input_buses eng dst)
          then ((), eng\<lparr>callbacks :=
                  (callbacks eng)((dst, nat destinationBus) \<mapsto> (src, nat sourceBus))\<rparr>)
          else ((), eng)
      | _ \<Rightarrow> ((), eng))"

section \<open>The ring buffer of the input node\<close>

text \<open>
  An audio buffer-list as the ring buffer allocates it: a number of channels, each with
  room for a number of sample frames.
\<close>

record AudioBufferList =
  mNumberBuffers :: UInt32
  frameCapacity :: UInt32

text \<open>
  Class \<^verbatim>\<open>RingBuffer\<close> (header, lines 177 to 194) derives from a vector of
  buffer-lists, the \<open>slots\<close>, and declares two 64-bit counts
  \<^verbatim>\<open>_readItrIndex\<close>, \<^verbatim>\<open>_writeItrIndex\<close> and two iterators into the vector,
  \<^verbatim>\<open>_readItr\<close>, \<^verbatim>\<open>_writeItr\<close>, here positions from the vector's begin.
\<close>

record RingBuffer =
  slots :: "AudioBufferList list"
  readItrIndex :: UInt64
  writeItrIndex :: UInt64
  readItr :: nat
  writeItr :: nat

text \<open>
  Modelled from the spec: the constructor of \<^verbatim>\<open>RingBuffer\<close>, declared with the
  default arguments \<^verbatim>\<open>buffers = 3\<close>, \<^verbatim>\<open>channelsPerBuffer = 2\<close>,
  \<^verbatim>\<open>samplesPerBuffer = 512\<close> at lines 184 to 186 of the header and defined in a
  file that is not among the sources. The spec has: a fixed number of slots, each
  holding one pre-allocated audio buffer-list of a fixed number of channels by a fixed
  sample-frame capacity. Both cursors start at the first slot.
\<close>

definition RingBuffer_ctor :: "UInt32 \<Rightarrow> UInt32 \<Rightarrow> UInt32 \<Rightarrow> RingBuffer" where
  "RingBuffer_ctor buffers channelsPerBuffer samplesPerBuffer =
     \<lparr>slots = replicate (unat buffers)
        \<lparr>mNumberBuffers = channelsPerBuffer, frameCapacity = samplesPerBuffer\<rparr>,
      readItrIndex = 0, writeItrIndex = 0, readItr = 0, writeItr = 0\<rparr>"

definition RingBuffer_default :: RingBuffer where
  "RingBuffer_default = RingBuffer_ctor 3 2 512"

text \<open>
  Modelled from the spec: \<^verbatim>\<open>advanceItr\<close>, \<^verbatim>\<open>advanceReadHead\<close> and
  \<^verbatim>\<open>advanceWriteHead\<close>, declared at lines 181, 189 and 190 of the header
  (\<^verbatim>\<open>bool advanceReadHead(); void advanceWriteHead();\<close>) and defined in a file that
  is not among the sources. The spec has: the read and write cursors increase
  monotonically, each taken modulo the slot count; \<^verbatim>\<open>advanceWriteHead\<close>
  unconditionally advances the write cursor by one slot; \<^verbatim>\<open>advanceReadHead\<close>
  succeeds and advances the read cursor by one slot iff the read cursor differs from the
  write cursor, and otherwise fails with no cursor movement. A cursor is the declared
  pair of a count, which only increases, and an iterator, which is the slot and wraps
  at the end of the vector; two cursors differ when their counts do.
\<close>

definition advanceItr :: "RingBuffer \<Rightarrow> nat \<Rightarrow> nat" where
  "advanceItr rb itr = (if Suc itr = length (slots rb) then 0 else Suc itr)"

definition advanceReadHead :: "RingBuffer \<Rightarrow> bool \<times> RingBuffer" where
  "advanceReadHead rb =
     (if readItrIndex rb \<noteq> writeItrIndex rb
      then (True, rb\<lparr>readItr := advanceItr rb (readItr rb),
                     readItrIndex := readItrIndex rb + 1\<rparr>)
      else (False, rb))"

definition advanceWriteHead :: "RingBuffer \<Rightarrow> RingBuffer" where
  "advanceWriteHead rb =
     rb\<lparr>writeItr := advanceItr rb (writeItr rb), writeItrIndex := writeItrIndex rb + 1\<rparr>"

text \<open>\<open>n\<close> writes in a row, and \<open>n\<close> read attempts in a row with their results in order.\<close>

fun writes :: "nat \<Rightarrow> RingBuffer \<Rightarrow> RingBuffer" where
  "writes 0 rb = rb"
| "writes (Suc n) rb = writes n (advanceWriteHead rb)"

fun reads :: "nat \<Rightarrow> RingBuffer \<Rightarrow> bool list \<times> RingBuffer" where
  "reads 0 rb = ([], rb)"
| "reads (Suc n) rb =
     (case advanceReadHead rb of
        (ok, rb') \<Rightarrow> (case reads n rb' of (oks, rb'') \<Rightarrow> (ok # oks, rb'')))"

section \<open>The hardware output node\<close>

text \<open>
  The destructor is written in the header (line 165):
  \<^verbatim>\<open>~ofxAudioUnitOutput(){stop();}\<close>. Its body runs first and the destructor of the
  base class \<^verbatim>\<open>ofxAudioUnit\<close>, which releases the unit, runs after it. Both
  \<^verbatim>\<open>stop\<close> and the base destructor are defined in files that are not among the
  sources, so the destructor takes them as parameters.
\<close>

definition ofxAudioUnitOutput_dtor ::
  "('a ofxAudioUnit_scheme \<Rightarrow> AudioEngine \<Rightarrow> bool \<times> AudioEngine)
     \<Rightarrow> ('a ofxAudioUnit_scheme \<Rightarrow> AudioEngine \<Rightarrow> AudioEngine)
     \<Rightarrow> 'a ofxAudioUnit_scheme \<Rightarrow> AudioEngine \<Rightarrow> AudioEngine" where
  "ofxAudioUnitOutput_dtor stop_fn base_dtor n eng =
     (case stop_fn n eng of (stopped, eng1) \<Rightarrow> base_dtor n eng1)"

text \<open>
  Modelled from the spec: \<^verbatim>\<open>ofxAudioUnitOutput::start\<close> and
  \<^verbatim>\<open>ofxAudioUnitOutput::stop\<close> (declared at lines 167 and 168 of the header) and
  the destructor of \<^verbatim>\<open>ofxAudioUnit\<close> (line 44). The spec has: start and stop
  toggle the underlying unit's running state, stop is idempotent and safe to call from
  destruction paths, and the unit is deleted on node destruction by a disposal routine.
\<close>

definition start :: "'a ofxAudioUnit_scheme \<Rightarrow> AudioEngine \<Rightarrow> bool \<times> AudioEngine" where
  "start n eng =
     (case m_unit n of
        None \<Rightarrow> (False, eng)
      | Some u \<Rightarrow> (True, eng\<lparr>running := (running eng)(u := True)\<rparr>))"

definition stop :: "'a ofxAudioUnit_scheme \<Rightarrow> AudioEngine \<Rightarrow> bool \<times> AudioEngine" where
  "stop n eng =
     (case m_unit n of
        None \<Rightarrow> (False, eng)
      | Some u \<Rightarrow> (True, eng\<lparr>running := (running eng)(u := False)\<rparr>))"

definition ofxAudioUnit_dtor :: "'a ofxAudioUnit_scheme \<Rightarrow> AudioEngine \<Rightarrow> AudioEngine" where
  "ofxAudioUnit_dtor n eng =
     (case m_unit n of
        None \<Rightarrow> eng
      | Some u \<Rightarrow> eng\<lparr>disposed := disposed eng @ [u]\<rparr>)"

section \<open>Concrete states for the closed theorems\<close>

definition engine0 :: AudioEngine where
  "engine0 =
     \<lparr>available = (\<lambda>d. True), load_status = (\<lambda>paths. 0), instances = [], loaded = (\<lambda>u. []),
      midi = [], diagnostics = [], input_buses = (\<lambda>u. 1), callbacks = (\<lambda>k. None),
      running = (\<lambda>u. False), disposed = []\<rparr>"

definition sampler0 :: ofxAudioUnitSampler where
  "sampler0 = \<lparr>m_unit = Some 0, m_desc = samplerDesc, midiChannelInUse = 0\<rparr>"

definition sampler1 :: ofxAudioUnitSampler where
  "sampler1 = \<lparr>m_unit = Some 1, m_desc = samplerDesc, midiChannelInUse = 5\<rparr>"

definition store0 :: store where
  "store0 = (\<lambda>a. None)(0 \<mapsto> sampler0, 1 \<mapsto> sampler1)"

section \<open>Bit-level facts about the status word\<close>

lemma low_nibble_of_status:
  fixes c k :: UInt32
  assumes "c \<le> 15"
  shows "(push_bit 4 k OR c) AND 15 = c"
proof -
  have m: "(15 :: UInt32) = mask 4"
    by (simp add: mask_eq_exp_minus_1)
  have "c < 2 ^ 4"
    using assms by (simp add: word_less_nat_alt word_le_nat_alt)
  then have "c AND mask 4 = c"
    by (rule less_mask_eq)
  moreover have "push_bit 4 k AND (mask 4 :: UInt32) = 0"
    by (rule bit_eqI) (auto simp: bit_simps)
  ultimately show ?thesis
    by (simp add: m bit.conj_disj_distrib2)
qed

lemma high_bits_of_status:
  fixes c k :: UInt32
  assumes "c \<le> 15"
  shows "drop_bit 4 (push_bit 4 k OR c) = take_bit 28 k"
proof -
  have "c < 2 ^ 4"
    using assms by (simp add: word_less_nat_alt word_le_nat_alt)
  then have "c AND mask 4 = c"
    by (rule less_mask_eq)
  moreover have "drop_bit 4 (c AND mask 4) = 0"
    by (rule bit_eqI) (auto simp: bit_simps)
  ultimately have "drop_bit 4 c = 0"
    by simp
  moreover have "drop_bit 4 (push_bit 4 k) = take_bit 28 k"
    by (rule bit_eqI) (auto simp: bit_simps)
  ultimately show ?thesis
    by (simp add: drop_bit_or)
qed

section \<open>MIDI packing\<close>

text \<open>
  C3. For every note \<open>n\<close> and velocity \<open>v\<close>, on a sampler whose channel \<open>c\<close> is at
  most 15 and whose unit is \<open>u\<close>, \<open>midiNoteOn n v\<close> schedules exactly one event on \<open>u\<close>:
  its status is \<open>(0x9 << 4) | c\<close>, its data bytes are \<open>n\<close> and \<open>v\<close> and its sample offset
  is 0. The low nibble of that status is \<open>c\<close> and the bits above it are the command 0x9.
  The witness is \<open>midiNoteOn 60 100\<close> on channel 3, whose status is 0x93.
\<close>

theorem midiNoteOn_packs_status:
  assumes "c \<le> 15" and "midiChannelInUse s = c" and "m_unit s = Some u"
  shows "midiNoteOn n v s eng =
           Inr (eng\<lparr>midi := midi eng @
             [\<lparr>ev_unit = u, ev_status = push_bit 4 0x9 OR c, ev_data1 = n, ev_data2 = v,
               ev_offset = 0\<rparr>]\<rparr>)
         \<and> (push_bit 4 0x9 OR c) AND 15 = c
         \<and> drop_bit 4 (push_bit 4 0x9 OR c) = 0x9"
  using assms low_nibble_of_status [of c 9] high_bits_of_status [of c 9]
  by (simp add: midiNoteOn_def MusicDeviceMIDIEvent_def kMidiMessage_NoteOn_def)

theorem midiNoteOn_packs_status_witness:
  "midiNoteOn 60 100 (setChannel 3 sampler0) engine0 =
     Inr (engine0\<lparr>midi :=
       [\<lparr>ev_unit = 0, ev_status = 0x93, ev_data1 = 60, ev_data2 = 100, ev_offset = 0\<rparr>]\<rparr>)
   \<and> (0x93 :: UInt32) = push_bit 4 0x9 OR 3"
proof -
  have h1: "(3 :: UInt32) \<le> 15"
    by simp
  have h2: "midiChannelInUse (setChannel 3 sampler0) = 3"
    by (simp add: setChannel_def)
  have h3: "m_unit (setChannel 3 sampler0) = Some 0"
    by (simp add: setChannel_def sampler0_def)
  from midiNoteOn_packs_status [OF h1 h2 h3, of 60 100 engine0]
  show ?thesis
    by (simp add: engine0_def)
qed

section \<open>The channel is state of the node\<close>

lemma perform_packs_channel:
  assumes "m_unit s = Some u" and "midiChannelInUse s \<le> 15" and "packs_channel k"
  shows "\<exists>eng' new. perform k s eng = Inr (s, eng') \<and> midi eng' = midi eng @ new
           \<and> new \<noteq> [] \<and> (\<forall>e \<in> set new. ev_status e AND 15 = midiChannelInUse s)"
proof (cases k)
  case (MidiNoteOn n v)
  then show ?thesis
    using assms low_nibble_of_status [of "midiChannelInUse s" kMidiMessage_NoteOn]
    by (simp add: midiNoteOn_def MusicDeviceMIDIEvent_def)
next
  case (MidiNoteOff n v)
  then show ?thesis
    using assms low_nibble_of_status [of "midiChannelInUse s" kMidiMessage_NoteOff]
    by (simp add: midiNoteOff_def MusicDeviceMIDIEvent_def)
next
  case (SetBank msb lsb)
  then show ?thesis
    using assms low_nibble_of_status [of "midiChannelInUse s" kMidiMessage_ControlChange]
    by (simp add: setBank_def MusicDeviceMIDIEvent_def)
next
  case (SetProgram p)
  then show ?thesis
    using assms low_nibble_of_status [of "midiChannelInUse s" kMidiMessage_ProgramChange]
    by (simp add: setProgram_def MusicDeviceMIDIEvent_def)
next
  case (SetChannel ch)
  then show ?thesis using assms by simp
next
  case (MidiEvent a b c)
  then show ?thesis using assms by simp
qed

lemma run_packs_channel:
  assumes "m_unit s = Some u" and "midiChannelInUse s \<le> 15"
    and "\<forall>k \<in> set cs. packs_channel k"
  shows "\<exists>eng' new. run cs s eng = Inr (s, eng') \<and> midi eng' = midi eng @ new
           \<and> length cs \<le> length new
           \<and> (\<forall>e \<in> set new. ev_status e AND 15 = midiChannelInUse s)"
  using assms(3)
proof (induction cs arbitrary: eng)
  case Nil
  then show ?case by simp
next
  case (Cons k cs)
  from Cons.prems have pk: "packs_channel k" and rest: "\<forall>k \<in> set cs. packs_channel k"
    by simp_all
  from perform_packs_channel [OF assms(1,2) pk, of eng]
  obtain eng1 new1 where
    p: "perform k s eng = Inr (s, eng1)" and m1: "midi eng1 = midi eng @ new1"
    and n1: "new1 \<noteq> []" and a1: "\<forall>e \<in> set new1. ev_status e AND 15 = midiChannelInUse s"
    by blast
  from Cons.IH [OF rest, of eng1]
  obtain eng2 new2 where
    r: "run cs s eng1 = Inr (s, eng2)" and m2: "midi eng2 = midi eng1 @ new2"
    and n2: "length cs \<le> length new2"
    and a2: "\<forall>e \<in> set new2. ev_status e AND 15 = midiChannelInUse s"
    by blast
  have "run (k # cs) s eng = Inr (s, eng2)"
    using p r by simp
  moreover have "midi eng2 = midi eng @ (new1 @ new2)"
    using m1 m2 by simp
  moreover have "length (k # cs) \<le> length (new1 @ new2)"
    using n1 n2 by (cases new1) simp_all
  moreover have "\<forall>e \<in> set (new1 @ new2). ev_status e AND 15 = midiChannelInUse s"
    using a1 a2 by auto
  ultimately show ?case by blast
qed

lemma run_append:
  "run (xs @ ys) s eng =
     (case run xs s eng of Inl e \<Rightarrow> Inl e | Inr (s', eng') \<Rightarrow> run ys s' eng')"
  by (induction xs arbitrary: s eng) (auto split: sum.splits)

text \<open>
  C4 as stated: after \<open>setChannel c\<close> every later MIDI-emitting call packs \<open>c\<close> into
  the low nibble of its status. \<open>setChannel\<close> stores any 32-bit value and the calls or
  it into the status unmasked: after \<open>setChannel 16\<close>, \<open>midiNoteOff 60 0\<close> schedules
  the status 0x90, whose low nibble is 0 and not 16 (the channel has spilled into the
  command nibble, so the note-off goes out as a note-on status).
\<close>

theorem setChannel_16_spills_into_command:
  "run [SetChannel 16, MidiNoteOff 60 0] sampler0 engine0 =
     Inr (sampler0\<lparr>midiChannelInUse := 16\<rparr>,
          engine0\<lparr>midi :=
            [\<lparr>ev_unit = 0, ev_status = 0x90, ev_data1 = 60, ev_data2 = 0, ev_offset = 0\<rparr>]\<rparr>)
   \<and> (0x90 :: UInt32) AND 15 \<noteq> 16"
  by (simp add: sampler0_def engine0_def setChannel_def midiNoteOff_def
      MusicDeviceMIDIEvent_def kMidiMessage_NoteOff_def)

text \<open>
  C4, amended: the channel is a field of the sampler, not an argument of the MIDI
  calls. After \<open>setChannel c\<close> with \<open>c\<close> at most 15, every call of \<open>midiNoteOn\<close>,
  \<open>midiNoteOff\<close>, \<open>setBank\<close> and \<open>setProgram\<close> that follows schedules at least one
  event and each such event has \<open>c\<close> in the low nibble of its status; this lasts until a
  later \<open>setChannel c'\<close> (again at most 15), after which the events carry \<open>c'\<close>. The
  sampler holds a unit \<open>u\<close>.
\<close>

theorem setChannel_governs_later_calls:
  assumes "m_unit s = Some u" and "c \<le> 15" and "c' \<le> 15"
    and "\<forall>k \<in> set cs. packs_channel k" and "\<forall>k \<in> set cs'. packs_channel k"
  shows "\<exists>s' eng' new new'.
           run (SetChannel c # cs @ SetChannel c' # cs') s eng = Inr (s', eng')
         \<and> midi eng' = midi eng @ new @ new'
         \<and> length cs \<le> length new \<and> length cs' \<le> length new'
         \<and> (\<forall>e \<in> set new. ev_status e AND 15 = c)
         \<and> (\<forall>e \<in> set new'. ev_status e AND 15 = c')
         \<and> midiChannelInUse s' = c'"
proof -
  let ?s1 = "setChannel c s" and ?s2 = "setChannel c' (setChannel c s)"
  have u1: "m_unit ?s1 = Some u" and c1: "midiChannelInUse ?s1 \<le> 15"
    using assms(1,2) by (simp_all add: setChannel_def)
  have u2: "m_unit ?s2 = Some u" and c2: "midiChannelInUse ?s2 \<le> 15"
    using assms(1,3) by (simp_all add: setChannel_def)
  from run_packs_channel [OF u1 c1 assms(4), of eng]
  obtain eng1 new where
    r1: "run cs ?s1 eng = Inr (?s1, eng1)" and m1: "midi eng1 = midi eng @ new"
    and n1: "length cs \<le> length new"
    and a1: "\<forall>e \<in> set new. ev_status e AND 15 = midiChannelInUse ?s1"
    by blast
  from run_packs_channel [OF u2 c2 assms(5), of eng1]
  obtain eng2 new' where
    r2: "run cs' ?s2 eng1 = Inr (?s2, eng2)" and m2: "midi eng2 = midi eng1 @ new'"
    and n2: "length cs' \<le> length new'"
    and a2: "\<forall>e \<in> set new'. ev_status e AND 15 = midiChannelInUse ?s2"
    by blast
  have "run (SetChannel c # cs @ SetChannel c' # cs') s eng = Inr (?s2, eng2)"
    using r1 r2 by (simp add: run_append)
  moreover have "midi eng2 = midi eng @ new @ new'"
    using m1 m2 by simp
  moreover have "\<forall>e \<in> set new. ev_status e AND 15 = c"
    using a1 by (simp add: setChannel_def)
  moreover have "\<forall>e \<in> set new'. ev_status e AND 15 = c'"
    using a2 by (simp add: setChannel_def)
  moreover have "midiChannelInUse ?s2 = c'"
    by (simp add: setChannel_def)
  ultimately show ?thesis
    using n1 n2 by blast
qed

theorem setChannel_governs_later_calls_witness:
  "run [SetChannel 3, MidiNoteOn 60 100, SetBank 0 1, SetChannel 7, MidiNoteOff 60 0,
        SetProgram 5] sampler0 engine0 =
     Inr (sampler0\<lparr>midiChannelInUse := 7\<rparr>,
          engine0\<lparr>midi :=
            [\<lparr>ev_unit = 0, ev_status = 0x93, ev_data1 = 60, ev_data2 = 100, ev_offset = 0\<rparr>,
             \<lparr>ev_unit = 0, ev_status = 0xB3, ev_data1 = 0, ev_data2 = 0, ev_offset = 0\<rparr>,
             \<lparr>ev_unit = 0, ev_status = 0xB3, ev_data1 = 32, ev_data2 = 1, ev_offset = 0\<rparr>,
             \<lparr>ev_unit = 0, ev_status = 0x87, ev_data1 = 60, ev_data2 = 0, ev_offset = 0\<rparr>,
             \<lparr>ev_unit = 0, ev_status = 0xC7, ev_data1 = 5, ev_data2 = 0, ev_offset = 0\<rparr>]\<rparr>)"
proof -
  have h1: "m_unit sampler0 = Some 0"
    by (simp add: sampler0_def)
  have h2: "(3 :: UInt32) \<le> 15" and h3: "(7 :: UInt32) \<le> 15"
    by simp_all
  have h4: "\<forall>k \<in> set [MidiNoteOn 60 100, SetBank 0 1]. packs_channel k"
    by simp
  have h5: "\<forall>k \<in> set [MidiNoteOff 60 0, SetProgram 5]. packs_channel k"
    by simp
  from setChannel_governs_later_calls [OF h1 h2 h3 h4 h5, of engine0]
  show ?thesis
    by (simp add: sampler0_def engine0_def setChannel_def midiNoteOn_def midiNoteOff_def
        setBank_def setProgram_def MusicDeviceMIDIEvent_def kMidiMessage_NoteOn_def
        kMidiMessage_NoteOff_def kMidiMessage_ControlChange_def
        kMidiMessage_ProgramChange_def kMidiMessage_BankMSBControl_def
        kMidiMessage_BankLSBControl_def)
qed

section \<open>Construction, copying and the channel field\<close>

lemma initUnit_keeps_channel:
  "midiChannelInUse (fst (initUnit (s :: ofxAudioUnitSampler) eng)) = midiChannelInUse s"
  by (simp add: initUnit_def)

lemma constructors_keep_raw_channel:
  "midiChannelInUse (fst (Sampler_default raw eng)) = midiChannelInUse raw"
  "midiChannelInUse (fst (Sampler_of_type ty st mf raw eng)) = midiChannelInUse raw"
  "midiChannelInUse (fst (Sampler_copy orig raw eng)) = midiChannelInUse raw"
  by (simp_all add: Sampler_default_def Sampler_of_type_def Sampler_copy_def
      initUnit_keeps_channel ofxAudioUnit_base_def)

text \<open>
  C9. None of the constructors the source defines (the default one, the one taking
  type, subtype and manufacturer, and the copy constructor) writes
  \<open>midiChannelInUse\<close>: in the constructed sampler the field holds what the storage
  \<open>raw\<close> held before, a value the program never chose. A call of \<open>midiNoteOn\<close>,
  \<open>midiNoteOff\<close>, \<open>setProgram\<close> or \<open>setBank\<close> made before any \<open>setChannel\<close> ors that
  value into its status word, so the status is whatever the storage happened to hold.
\<close>

theorem constructors_leave_channel_indeterminate:
  assumes "s = fst (Sampler_default raw eng) \<or> s = fst (Sampler_of_type ty st mf raw eng)
           \<or> s = fst (Sampler_copy orig raw eng)"
  shows "midiChannelInUse s = midiChannelInUse raw
       \<and> midiNoteOn n v s e =
           (case m_unit s of None \<Rightarrow> Inl NullUnit
            | Some u \<Rightarrow> Inr (MusicDeviceMIDIEvent u
                (push_bit 4 kMidiMessage_NoteOn OR midiChannelInUse raw) n v 0 e))
       \<and> midiNoteOff n v s e =
           (case m_unit s of None \<Rightarrow> Inl NullUnit
            | Some u \<Rightarrow> Inr (MusicDeviceMIDIEvent u
                (push_bit 4 kMidiMessage_NoteOff OR midiChannelInUse raw) n v 0 e))
       \<and> setProgram n s e =
           (case m_unit s of None \<Rightarrow> Inl NullUnit
            | Some u \<Rightarrow> Inr (MusicDeviceMIDIEvent u
                (push_bit 4 kMidiMessage_ProgramChange OR midiChannelInUse raw) n 0 0 e))
       \<and> setBank n v s e =
           (case m_unit s of None \<Rightarrow> Inl NullUnit
            | Some u \<Rightarrow> Inr (MusicDeviceMIDIEvent u
                (push_bit 4 kMidiMessage_ControlChange OR midiChannelInUse raw)
                kMidiMessage_BankLSBControl v 0
                (MusicDeviceMIDIEvent u
                  (push_bit 4 kMidiMessage_ControlChange OR midiChannelInUse raw)
                  kMidiMessage_BankMSBControl n 0 e)))"
proof -
  have c: "midiChannelInUse s = midiChannelInUse raw"
    using assms constructors_keep_raw_channel by metis
  show ?thesis
    unfolding midiNoteOn_def midiNoteOff_def setProgram_def setBank_def Let_def c
    by simp
qed

theorem constructors_leave_channel_indeterminate_witness:
  "midiNoteOn 60 100 (fst (Sampler_default (sampler1\<lparr>midiChannelInUse := 0xABCD\<rparr>) engine0))
     (snd (Sampler_default (sampler1\<lparr>midiChannelInUse := 0xABCD\<rparr>) engine0)) =
     Inr (engine0\<lparr>instances := [(0, samplerDesc)], midi :=
       [\<lparr>ev_unit = 0, ev_status = 0xABDD, ev_data1 = 60, ev_data2 = 100, ev_offset = 0\<rparr>]\<rparr>)"
proof -
  let ?raw = "sampler1\<lparr>midiChannelInUse := 0xABCD\<rparr>"
  have h: "fst (Sampler_default ?raw engine0) = fst (Sampler_default ?raw engine0)
           \<or> fst (Sampler_default ?raw engine0) = fst (Sampler_of_type 0 0 0 ?raw engine0)
           \<or> fst (Sampler_default ?raw engine0) = fst (Sampler_copy sampler0 ?raw engine0)"
    by simp
  have u: "m_unit (fst (Sampler_default ?raw engine0)) = Some 0"
    by (simp add: Sampler_default_def initUnit_def engine0_def)
  have e: "snd (Sampler_default ?raw engine0) = engine0\<lparr>instances := [(0, samplerDesc)]\<rparr>"
    by (simp add: Sampler_default_def initUnit_def engine0_def ofxAudioUnit_base_def)
  note T = constructors_leave_channel_indeterminate [OF h, of 60 100
      "snd (Sampler_default ?raw engine0)"]
  from T [THEN conjunct2, THEN conjunct1]
  have "midiNoteOn 60 100 (fst (Sampler_default ?raw engine0))
          (snd (Sampler_default ?raw engine0)) =
        Inr (MusicDeviceMIDIEvent 0 (push_bit 4 kMidiMessage_NoteOn OR midiChannelInUse ?raw)
          60 100 0 (snd (Sampler_default ?raw engine0)))"
    by (simp add: u)
  then show ?thesis
    unfolding e by (simp add: MusicDeviceMIDIEvent_def kMidiMessage_NoteOn_def engine0_def)
qed

lemma operator_assign_distinct:
  assumes "this \<noteq> orig" and "h this = Some t" and "h orig = Some s"
  shows "operator_assign this orig h =
           Some (h(this \<mapsto> t\<lparr>m_unit := m_unit s, m_desc := m_desc s\<rparr>))"
  using assms by (simp add: operator_assign_def)

text \<open>
  C10. Copying does not carry the channel over. For an assignment between two distinct
  objects, only the target's unit and descriptor are written: the store changes at the
  target alone, and the target keeps its own \<open>midiChannelInUse\<close>. Copy construction
  does not read the source's \<open>midiChannelInUse\<close>: changing it in the source changes
  nothing in the result, whose channel is what the new object's storage held.
\<close>

theorem copying_keeps_target_channel:
  assumes "this \<noteq> orig" and "h this = Some t" and "h orig = Some s"
  shows "operator_assign this orig h =
           Some (h(this \<mapsto> t\<lparr>m_unit := m_unit s, m_desc := m_desc s\<rparr>))
       \<and> midiChannelInUse (t\<lparr>m_unit := m_unit s, m_desc := m_desc s\<rparr>) = midiChannelInUse t
       \<and> Sampler_copy (s\<lparr>midiChannelInUse := x\<rparr>) raw eng = Sampler_copy s raw eng
       \<and> midiChannelInUse (fst (Sampler_copy s raw eng)) = midiChannelInUse raw"
  using operator_assign_distinct [OF assms] constructors_keep_raw_channel(3) [of s raw eng]
  by (simp add: Sampler_copy_def)

theorem copying_keeps_target_channel_witness:
  "operator_assign 1 0 store0 =
     Some (store0(1 \<mapsto> \<lparr>m_unit = Some 0, m_desc = samplerDesc, midiChannelInUse = 5\<rparr>))
   \<and> midiChannelInUse sampler0 = 0
   \<and> midiChannelInUse (fst (Sampler_copy sampler0 sampler1 engine0)) = 5"
proof -
  have h1: "(1 :: addr) \<noteq> 0"
    by simp
  have h2: "store0 1 = Some sampler1" and h3: "store0 0 = Some sampler0"
    by (simp_all add: store0_def)
  from copying_keeps_target_channel [OF h1 h2 h3, of 9 sampler1 engine0]
  show ?thesis
    by (simp add: sampler0_def sampler1_def)
qed

lemma Sampler_copy_instantiates:
  assumes "available eng (m_desc orig)"
  shows "Sampler_copy orig raw eng =
           (raw\<lparr>m_unit := Some (length (instances eng)), m_desc := m_desc orig\<rparr>,
            eng\<lparr>instances := instances eng @ [(length (instances eng), m_desc orig)]\<rparr>)"
  using assms by (simp add: Sampler_copy_def initUnit_def ofxAudioUnit_base_def)

text \<open>
  C1 says that assignment, like copy construction, leaves the target with a newly
  instantiated unit that it does not share with the source. The copy constructor does
  call \<open>initUnit\<close> (lemma \<open>Sampler_copy_instantiates\<close>), but \<open>operator=\<close> copies the
  pointer: in \<open>store0\<close> the sampler at address 1 holds unit 1 before the assignment
  from the sampler at address 0, and after it both hold unit 0.
\<close>

theorem operator_assign_shares_unit:
  "map_option (\<lambda>h. (map_option m_unit (h 0), map_option m_unit (h 1)))
     (operator_assign 1 0 store0) = Some (Some (Some 0), Some (Some 0))
   \<and> map_option m_unit (store0 1) = Some (Some 1)"
  by (simp add: operator_assign_def store0_def sampler0_def sampler1_def)

lemma setSample_always_true:
  assumes "m_unit n = Some u"
  shows "\<exists>eng'. setSample samplePath n eng = Inr (Some True, eng')"
  using assms by (simp add: setSample_def split: prod.splits)

text \<open>
  C2 says that the boolean result of \<open>setSample\<close> and \<open>setSamples\<close> tells whether the
  files could be loaded. On an engine that answers the load request with the error
  status -43, \<open>setSample\<close> prints the diagnostic and still returns true, and
  \<open>setSamples\<close> prints the diagnostic and returns no value at all.
\<close>

theorem setSample_true_on_failed_load:
  "setSample ''/no/such/file.wav'' sampler0 (engine0\<lparr>load_status := (\<lambda>paths. - 43)\<rparr>) =
     Inr (Some True, engine0\<lparr>load_status := (\<lambda>paths. - 43),
            diagnostics := [''setting ofxAudioUnitSampler's source sample'']\<rparr>)
   \<and> setSamples [''/no/such/file.wav''] sampler0 (engine0\<lparr>load_status := (\<lambda>paths. - 43)\<rparr>) =
     Inr (None, engine0\<lparr>load_status := (\<lambda>paths. - 43),
            diagnostics := [''setting ofxAudioUnitSampler's source samples'']\<rparr>)"
  by (simp add: setSample_def setSamples_def AudioUnitSetProperty_LoadAudioFiles_def
      OFXAU_PRINT_def noErr_def sampler0_def engine0_def)

section \<open>Connecting to a bus that does not exist\<close>

text \<open>
  C5 as stated: a call of \<open>connectTo\<close> whose destination bus is not below the other
  node's input-bus count returns a failure indication and installs no callback. The
  function is declared \<^verbatim>\<open>void\<close>: on an engine whose units have one input bus, the
  call on bus 1, which installs nothing, hands the caller the same value as the call on
  bus 0, which installs the callback. No value tells the two apart.
\<close>

theorem connectTo_gives_no_failure_value:
  "fst (connectTo sampler0 sampler1 1 0 engine0) = fst (connectTo sampler0 sampler1 0 0 engine0)
   \<and> snd (connectTo sampler0 sampler1 1 0 engine0) = engine0
   \<and> callbacks (snd (connectTo sampler0 sampler1 0 0 engine0)) (1, 0) = Some (0, 0)
   \<and> callbacks engine0 (1, 0) = None"
  by (simp add: connectTo_def sampler0_def sampler1_def engine0_def)

text \<open>
  C5, amended: a call of \<open>connectTo\<close> whose destination bus is not below the other
  node's current input-bus count installs no callback and leaves the engine, and with
  it the connection graph, as it was; the function is void and returns nothing, so the
  failure is not reported through a return value.
\<close>

theorem connectTo_out_of_range_is_noop:
  assumes "m_unit otherUnit = Some dst" and "int (input_buses eng dst) \<le> destinationBus"
  shows "connectTo this otherUnit destinationBus sourceBus eng = ((), eng)"
  using assms by (simp add: connectTo_def split: option.splits)

theorem connectTo_out_of_range_is_noop_witness:
  "connectTo sampler0 sampler1 1 0 engine0 = ((), engine0)
   \<and> callbacks (snd (connectTo sampler0 sampler1 1 0 engine0)) = callbacks engine0"
proof -
  have h1: "m_unit sampler1 = Some 1"
    by (simp add: sampler1_def)
  have h2: "int (input_buses engine0 1) \<le> 1"
    by (simp add: engine0_def)
  from connectTo_out_of_range_is_noop [OF h1 h2, of sampler0 0]
  show ?thesis
    by simp
qed

section \<open>The ring buffer\<close>

lemma advanceItr_mod:
  assumes "itr < length (slots rb)"
  shows "advanceItr rb itr = (itr + 1) mod length (slots rb)"
  using assms by (auto simp: advanceItr_def)

lemma writes_fields:
  "slots (writes n rb) = slots rb \<and> readItrIndex (writes n rb) = readItrIndex rb
   \<and> readItr (writes n rb) = readItr rb
   \<and> writeItrIndex (writes n rb) = writeItrIndex rb + of_nat n"
  by (induction n arbitrary: rb) (simp_all add: advanceWriteHead_def)

lemma count_neq:
  fixes a :: UInt64
  assumes "Suc k < 2 ^ 64"
  shows "a \<noteq> a + of_nat (Suc k)"
proof
  assume "a = a + of_nat (Suc k)"
  then have "(of_nat (Suc k) :: UInt64) = 0"
    by simp
  moreover have "(of_nat (Suc k) :: UInt64) \<noteq> 0"
    by (rule of_nat_neq_0) (use assms in simp_all)
  ultimately show False
    by simp
qed

lemma reads_of_unread:
  assumes "k < 2 ^ 64" and "writeItrIndex rb = readItrIndex rb + of_nat k"
  shows "fst (reads (Suc k) rb) = replicate k True @ [False]"
  using assms
proof (induction k arbitrary: rb)
  case 0
  then show ?case
    by (simp add: advanceReadHead_def)
next
  case (Suc j)
  let ?rb' = "rb\<lparr>readItr := advanceItr rb (readItr rb), readItrIndex := readItrIndex rb + 1\<rparr>"
  have ne: "readItrIndex rb \<noteq> writeItrIndex rb"
    using Suc.prems count_neq [of j "readItrIndex rb"] by simp
  then have step: "advanceReadHead rb = (True, ?rb')"
    by (simp add: advanceReadHead_def)
  have "writeItrIndex ?rb' = readItrIndex ?rb' + of_nat j"
    using Suc.prems(2) by simp
  moreover have "j < 2 ^ 64"
    using Suc.prems(1) by simp
  ultimately have "fst (reads (Suc j) ?rb') = replicate j True @ [False]"
    by (rule Suc.IH [rotated])
  then show ?case
    using step by (simp add: split_beta)
qed

text \<open>
  C6. For a ring buffer with \<open>N\<close> slots whose iterators point into the slots:
  \<open>advanceReadHead\<close> succeeds iff the read cursor differs from the write cursor; when
  it succeeds the read slot moves on by one modulo \<open>N\<close> and the read count by one, and
  nothing else changes; when it fails the buffer is unchanged. \<open>advanceWriteHead\<close>
  has no failure result and always moves the write slot on by one modulo \<open>N\<close>. After
  \<open>N\<close> writes into a buffer with nothing unread, \<open>N\<close> reads succeed and read
  \<open>N + 1\<close>, with no write in between, fails.
\<close>

theorem ring_buffer_heads:
  assumes "readItr rb < length (slots rb)" and "writeItr rb < length (slots rb)"
    and "length (slots rb) < 2 ^ 64"
  shows "fst (advanceReadHead rb) = (readItrIndex rb \<noteq> writeItrIndex rb)
       \<and> (readItrIndex rb \<noteq> writeItrIndex rb \<longrightarrow>
            snd (advanceReadHead rb) =
              rb\<lparr>readItr := (readItr rb + 1) mod length (slots rb),
                 readItrIndex := readItrIndex rb + 1\<rparr>)
       \<and> (readItrIndex rb = writeItrIndex rb \<longrightarrow> snd (advanceReadHead rb) = rb)
       \<and> advanceWriteHead rb =
            rb\<lparr>writeItr := (writeItr rb + 1) mod length (slots rb),
               writeItrIndex := writeItrIndex rb + 1\<rparr>
       \<and> (readItrIndex rb = writeItrIndex rb \<longrightarrow>
            fst (reads (Suc (length (slots rb))) (writes (length (slots rb)) rb)) =
              replicate (length (slots rb)) True @ [False])"
proof -
  have a: "fst (advanceReadHead rb) = (readItrIndex rb \<noteq> writeItrIndex rb)"
    by (simp add: advanceReadHead_def)
  have b: "readItrIndex rb \<noteq> writeItrIndex rb \<longrightarrow>
            snd (advanceReadHead rb) =
              rb\<lparr>readItr := (readItr rb + 1) mod length (slots rb),
                 readItrIndex := readItrIndex rb + 1\<rparr>"
    using advanceItr_mod [OF assms(1)] by (simp add: advanceReadHead_def)
  have c: "readItrIndex rb = writeItrIndex rb \<longrightarrow> snd (advanceReadHead rb) = rb"
    by (simp add: advanceReadHead_def)
  have d: "advanceWriteHead rb =
            rb\<lparr>writeItr := (writeItr rb + 1) mod length (slots rb),
               writeItrIndex := writeItrIndex rb + 1\<rparr>"
    using advanceItr_mod [OF assms(2)] by (simp add: advanceWriteHead_def)
  have e: "readItrIndex rb = writeItrIndex rb \<longrightarrow>
            fst (reads (Suc (length (slots rb))) (writes (length (slots rb)) rb)) =
              replicate (length (slots rb)) True @ [False]"
  proof
    assume eq: "readItrIndex rb = writeItrIndex rb"
    let ?w = "writes (length (slots rb)) rb"
    have "writeItrIndex ?w = readItrIndex ?w + of_nat (length (slots rb))"
      using writes_fields [of "length (slots rb)" rb] eq by simp
    with assms(3) show "fst (reads (Suc (length (slots rb))) ?w) =
        replicate (length (slots rb)) True @ [False]"
      by (rule reads_of_unread)
  qed
  from a b c d e show ?thesis
    by blast
qed

theorem ring_buffer_heads_witness:
  "fst (reads 4 (writes 3 RingBuffer_default)) = [True, True, True, False]
   \<and> fst (advanceReadHead RingBuffer_default) = False
   \<and> snd (advanceReadHead RingBuffer_default) = RingBuffer_default
   \<and> advanceWriteHead RingBuffer_default =
       RingBuffer_default\<lparr>writeItr := 1, writeItrIndex := 1\<rparr>
   \<and> fst (advanceReadHead (advanceWriteHead RingBuffer_default)) = True
   \<and> readItr (snd (advanceReadHead (advanceWriteHead RingBuffer_default))) = 1"
proof -
  have l: "length (slots RingBuffer_default) = 3"
    by (simp add: RingBuffer_default_def RingBuffer_ctor_def)
  have h1: "readItr RingBuffer_default < length (slots RingBuffer_default)"
    and h2: "writeItr RingBuffer_default < length (slots RingBuffer_default)"
    by (simp_all add: RingBuffer_default_def RingBuffer_ctor_def)
  have h3: "length (slots RingBuffer_default) < 2 ^ 64"
    unfolding l by simp
  have q: "readItrIndex RingBuffer_default = writeItrIndex RingBuffer_default"
    by (simp add: RingBuffer_default_def RingBuffer_ctor_def)
  have z: "writeItr RingBuffer_default = 0" "writeItrIndex RingBuffer_default = 0"
    by (simp_all add: RingBuffer_default_def RingBuffer_ctor_def)
  note T = ring_buffer_heads [OF h1 h2 h3, unfolded l]
  have rep: "replicate 3 True @ [False] = [True, True, True, False]"
    by (simp add: numeral_3_eq_3)
  have n4: "(4 :: nat) = Suc 3"
    by simp
  have r: "fst (reads 4 (writes 3 RingBuffer_default)) = [True, True, True, False]"
    unfolding n4
    using T [THEN conjunct2, THEN conjunct2, THEN conjunct2, THEN conjunct2, rule_format, OF q,
        unfolded rep] .
  have a: "fst (advanceReadHead RingBuffer_default) = False"
    using T [THEN conjunct1] q by simp
  have b: "snd (advanceReadHead RingBuffer_default) = RingBuffer_default"
    using T [THEN conjunct2, THEN conjunct2, THEN conjunct1, rule_format, OF q] .
  have w: "advanceWriteHead RingBuffer_default =
       RingBuffer_default\<lparr>writeItr := 1, writeItrIndex := 1\<rparr>"
    using T [THEN conjunct2, THEN conjunct2, THEN conjunct2, THEN conjunct1]
    by (simp add: z)
  let ?w = "advanceWriteHead RingBuffer_default"
  have lw: "length (slots ?w) = 3"
    unfolding w by (simp add: l)
  have k1: "readItr ?w < length (slots ?w)" and k2: "writeItr ?w < length (slots ?w)"
    unfolding w by (simp_all add: l RingBuffer_default_def RingBuffer_ctor_def)
  have k3: "length (slots ?w) < 2 ^ 64"
    unfolding lw by simp
  have ne: "readItrIndex ?w \<noteq> writeItrIndex ?w"
    unfolding w by (simp add: RingBuffer_default_def RingBuffer_ctor_def)
  have ri: "readItr ?w = 0"
    unfolding w by (simp add: RingBuffer_default_def RingBuffer_ctor_def)
  note T2 = ring_buffer_heads [OF k1 k2 k3, unfolded lw]
  have c: "fst (advanceReadHead ?w) = True"
    using T2 [THEN conjunct1] ne by simp
  have d: "readItr (snd (advanceReadHead ?w)) = 1"
    using T2 [THEN conjunct2, THEN conjunct1, rule_format, OF ne] by (simp add: ri)
  from r a b w c d show ?thesis
    by (intro conjI)
qed

text \<open>
  C7. The ring buffer made with the default arguments has exactly 3 slots, each a
  buffer-list of 2 channels with room for 512 sample frames; both cursors are at the
  first slot and nothing is unread.
\<close>

theorem RingBuffer_default_shape:
  "slots RingBuffer_default = replicate 3 \<lparr>mNumberBuffers = 2, frameCapacity = 512\<rparr>
   \<and> length (slots RingBuffer_default) = 3
   \<and> readItr RingBuffer_default = 0 \<and> writeItr RingBuffer_default = 0
   \<and> readItrIndex RingBuffer_default = writeItrIndex RingBuffer_default"
  by (simp add: RingBuffer_default_def RingBuffer_ctor_def)

section \<open>Destroying the output node\<close>

text \<open>
  C8. The destructor of the output node runs \<open>stop\<close> and only then the base
  destructor, which releases the unit: the release acts on the engine that \<open>stop\<close>
  left. So for every stop that takes the node's unit out of the running state, the unit
  is not running when it is released, whether or not it ran before and whether or not
  the caller had stopped it.
\<close>

theorem output_dtor_stops_first:
  assumes "m_unit n = Some u" and "\<forall>e. \<not> running (snd (stop_fn n e)) u"
  shows "ofxAudioUnitOutput_dtor stop_fn base_dtor n eng = base_dtor n (snd (stop_fn n eng))
       \<and> \<not> running (snd (stop_fn n eng)) u"
  using assms by (simp add: ofxAudioUnitOutput_dtor_def split: prod.splits)

theorem output_dtor_stops_first_witness:
  "running (engine0\<lparr>running := (\<lambda>u. True)\<rparr>) 0
   \<and> \<not> running (snd (stop sampler0 (engine0\<lparr>running := (\<lambda>u. True)\<rparr>))) 0
   \<and> ofxAudioUnitOutput_dtor stop ofxAudioUnit_dtor sampler0
         (engine0\<lparr>running := (\<lambda>u. True)\<rparr>) =
       ofxAudioUnit_dtor sampler0 (snd (stop sampler0 (engine0\<lparr>running := (\<lambda>u. True)\<rparr>)))
   \<and> disposed (ofxAudioUnitOutput_dtor stop ofxAudioUnit_dtor sampler0
         (engine0\<lparr>running := (\<lambda>u. True)\<rparr>)) = [0]
   \<and> \<not> running (ofxAudioUnitOutput_dtor stop ofxAudioUnit_dtor sampler0
         (engine0\<lparr>running := (\<lambda>u. True)\<rparr>)) 0"
proof -
  have h1: "m_unit sampler0 = Some 0"
    by (simp add: sampler0_def)
  have h2: "\<forall>e. \<not> running (snd (stop sampler0 e)) 0"
    by (simp add: stop_def sampler0_def)
  from output_dtor_stops_first [of sampler0 0 stop ofxAudioUnit_dtor
      "engine0\<lparr>running := (\<lambda>u. True)\<rparr>", OF h1 h2]
  show ?thesis
    by (simp add: stop_def ofxAudioUnit_dtor_def sampler0_def engine0_def)
qed

end
